theory Spec2Isabelle
  imports Main "HOL-Library.Word"
begin

section \<open>Values, errors and contexts\<close>

text \<open>
  The adapter of \<^verbatim>\<open>package mysql\<close> bridges \<^verbatim>\<open>database/sql\<close> (the vendor client) to
  the \<^verbatim>\<open>database/sql/driver\<close> interfaces. A \<^verbatim>\<open>driver.Value\<close> is one of the
  types the driver contract allows; the constructor is the dynamic type of the value.
\<close>

datatype dvalue =
    VNil
  | VInt64 "64 word"
  | VFloat64 "64 word"
  | VBool bool
  | VBytes "8 word list"
  | VString string
  | VTime int

text \<open>
  A Go \<^verbatim>\<open>error\<close>: \<^verbatim>\<open>errors.New(msg)\<close>, or \<^verbatim>\<open>fmt.Errorf(prefix + "%w", cause)\<close>,
  which keeps the cause for \<^verbatim>\<open>errors.Unwrap\<close>. The nil error is \<open>None\<close> of
  \<open>error option\<close>.
\<close>

datatype error = New string | Errorf_w string error

fun Error :: "error \<Rightarrow> string" where
  "Error (New msg) = msg"
| "Error (Errorf_w prefix cause) = prefix @ Error cause"

fun Unwrap :: "error \<Rightarrow> error option" where
  "Unwrap (New msg) = None"
| "Unwrap (Errorf_w prefix cause) = Some cause"

text \<open>\<^verbatim>\<open>errors.Is(err, target)\<close>: the target occurs in the chain of causes.\<close>

fun Is :: "error \<Rightarrow> error \<Rightarrow> bool" where
  "Is (New msg) target = (New msg = target)"
| "Is (Errorf_w prefix cause) target =
     (if Errorf_w prefix cause = target then True else Is cause target)"

text \<open>
  A \<^verbatim>\<open>context.Context\<close>: \<^verbatim>\<open>context.Background()\<close>, or a context of the caller,
  which may have been cancelled.
\<close>

datatype Context = Background | CallerCtx (cancelled: bool)

section \<open>The vendor client\<close>

text \<open>
  Handles of \<^verbatim>\<open>database/sql\<close>: \<^verbatim>\<open>*sql.DB\<close>, \<^verbatim>\<open>*sql.Stmt\<close>, \<^verbatim>\<open>*sql.Tx\<close>,
  \<^verbatim>\<open>*sql.Rows\<close> and \<^verbatim>\<open>sql.Result\<close>.
\<close>

datatype sql_DB = DB nat
datatype sql_Stmt = Stmt nat
datatype sql_Tx = Tx nat
datatype sql_Rows = Rows nat
datatype sql_Result = Result (LastInsertId: int) (RowsAffected: int)
datatype sql_TxOptions = TxOptions (Isolation: nat) (ReadOnly: bool)

text \<open>
  Caller-owned storage is an explicit store of \<^verbatim>\<open>driver.Value\<close> cells; an address is an
  index into it. A slice \<^verbatim>\<open>[]driver.Value\<close> is its header: the address of element 0,
  the length and the capacity. An \<^verbatim>\<open>any\<close> handed to \<^verbatim>\<open>Scan\<close> is nil or a pointer
  to a cell.
\<close>

type_synonym heap = "dvalue list"

record slice =
  sl_ptr :: nat
  sl_len :: nat
  sl_cap :: nat

datatype anyv = NilAny | PtrTo nat

text \<open>Modelled from the spec: the vendor client's named/positional parameter type that
  \<^verbatim>\<open>libsql.ToNamedValues\<close> produces; the helper is imported from
  \<^verbatim>\<open>github.com/webcore-go/lib-sql\<close> and is not among the sources. A positional parameter
  is a value at its position (counted from one).\<close>

record namedValue =
  Ordinal :: nat
  Value :: dvalue

text \<open>
  The vendor primitives the adapter is written against, over a vendor world \<open>'w\<close>
  (sessions, server, network). A Go result pair \<^verbatim>\<open>(x, err)\<close> that the adapter reads only
  after \<^verbatim>\<open>err != nil\<close> has been excluded is a sum; \<^verbatim>\<open>Rows.Columns\<close>, whose error
  the adapter discards, keeps both components. \<^verbatim>\<open>Rows.Scan\<close> writes through the pointers
  it is given, so it takes and returns the store.
\<close>

record 'w vendor =
  sql_Open :: "string \<Rightarrow> string \<Rightarrow> 'w \<Rightarrow> (error + sql_DB) \<times> 'w"
  DB_PingContext :: "sql_DB \<Rightarrow> Context \<Rightarrow> 'w \<Rightarrow> error option \<times> 'w"
  DB_Close :: "sql_DB \<Rightarrow> 'w \<Rightarrow> error option \<times> 'w"
  DB_PrepareContext :: "sql_DB \<Rightarrow> Context \<Rightarrow> string \<Rightarrow> 'w \<Rightarrow> (error + sql_Stmt) \<times> 'w"
  DB_BeginTx :: "sql_DB \<Rightarrow> Context \<Rightarrow> sql_TxOptions option \<Rightarrow> 'w \<Rightarrow> (error + sql_Tx) \<times> 'w"
  Stmt_Close :: "sql_Stmt \<Rightarrow> 'w \<Rightarrow> error option \<times> 'w"
  Stmt_ExecContext :: "sql_Stmt \<Rightarrow> Context \<Rightarrow> namedValue list \<Rightarrow> 'w \<Rightarrow> (error + sql_Result) \<times> 'w"
  Stmt_QueryContext :: "sql_Stmt \<Rightarrow> Context \<Rightarrow> namedValue list \<Rightarrow> 'w \<Rightarrow> (error + sql_Rows) \<times> 'w"
  Tx_Commit :: "sql_Tx \<Rightarrow> 'w \<Rightarrow> error option \<times> 'w"
  Tx_Rollback :: "sql_Tx \<Rightarrow> 'w \<Rightarrow> error option \<times> 'w"
  Rows_Columns :: "sql_Rows \<Rightarrow> 'w \<Rightarrow> (string list \<times> error option) \<times> 'w"
  Rows_Close :: "sql_Rows \<Rightarrow> 'w \<Rightarrow> error option \<times> 'w"
  Rows_Next :: "sql_Rows \<Rightarrow> 'w \<Rightarrow> bool \<times> 'w"
  Rows_Scan :: "sql_Rows \<Rightarrow> anyv list \<Rightarrow> heap \<Rightarrow> 'w \<Rightarrow> error option \<times> heap \<times> 'w"

section \<open>The adapter\<close>

record Connector =
  dsn :: string

record mysqlConn =
  db :: sql_DB

record mysqlStmt =
  stmt :: sql_Stmt

record mysqlTx =
  tx :: sql_Tx

record mysqlRows =
  rows :: sql_Rows

subsection \<open>Connector\<close>

definition Connector_Connect ::
  "'w vendor \<Rightarrow> Connector \<Rightarrow> Context \<Rightarrow> 'w \<Rightarrow> (error + mysqlConn) \<times> 'w" where
  "Connector_Connect V c ctx w =
     (case sql_Open V ''mysql'' (dsn c) w of
        (Inl err, w1) \<Rightarrow> (Inl (Errorf_w ''failed to open mysql: '' err), w1)
      | (Inr d, w1) \<Rightarrow>
          (case DB_PingContext V d ctx w1 of
             (Some err, w2) \<Rightarrow>
               (case DB_Close V d w2 of
                  (_, w3) \<Rightarrow> (Inl (Errorf_w ''failed to ping mysql: '' err), w3))
           | (None, w2) \<Rightarrow> (Inr \<lparr>db = d\<rparr>, w2)))"

subsection \<open>mysqlConn\<close>

definition mysqlConn_Prepare ::
  "'w vendor \<Rightarrow> mysqlConn \<Rightarrow> string \<Rightarrow> 'w \<Rightarrow> (error + mysqlStmt) \<times> 'w" where
  "mysqlConn_Prepare V c query w =
     (case DB_PrepareContext V (db c) Background query w of
        (Inl err, w1) \<Rightarrow> (Inl err, w1)
      | (Inr s, w1) \<Rightarrow> (Inr \<lparr>stmt = s\<rparr>, w1))"

definition mysqlConn_Close :: "'w vendor \<Rightarrow> mysqlConn \<Rightarrow> 'w \<Rightarrow> error option \<times> 'w" where
  "mysqlConn_Close V c w = DB_Close V (db c) w"

definition mysqlConn_Begin ::
  "'w vendor \<Rightarrow> mysqlConn \<Rightarrow> 'w \<Rightarrow> (error + mysqlTx) \<times> 'w" where
  "mysqlConn_Begin V c w =
     (case DB_BeginTx V (db c) Background None w of
        (Inl err, w1) \<Rightarrow> (Inl err, w1)
      | (Inr t, w1) \<Rightarrow> (Inr \<lparr>tx = t\<rparr>, w1))"

subsection \<open>mysqlStmt\<close>

text \<open>Modelled from the spec: \<^verbatim>\<open>libsql.ToNamedValues\<close>, the value-marshalling helper of
  \<^verbatim>\<open>github.com/webcore-go/lib-sql\<close>, which is not among the sources. The spec: the
  positional value list is "converted to the vendor client's named/positional parameter
  type", by "a pure, pass-through transform (type-preserving, no coercion)".\<close>

definition ToNamedValues :: "dvalue list \<Rightarrow> namedValue list" where
  "ToNamedValues args =
     map (\<lambda>p. \<lparr>Ordinal = fst p + 1, Value = snd p\<rparr>) (enumerate 0 args)"

definition mysqlStmt_Close :: "'w vendor \<Rightarrow> mysqlStmt \<Rightarrow> 'w \<Rightarrow> error option \<times> 'w" where
  "mysqlStmt_Close V s w = Stmt_Close V (stmt s) w"

definition mysqlStmt_NumInput :: "mysqlStmt \<Rightarrow> int" where
  "mysqlStmt_NumInput s = - 1"

definition mysqlStmt_Exec ::
  "'w vendor \<Rightarrow> mysqlStmt \<Rightarrow> dvalue list \<Rightarrow> 'w \<Rightarrow> (error + sql_Result) \<times> 'w" where
  "mysqlStmt_Exec V s args w =
     (case Stmt_ExecContext V (stmt s) Background (ToNamedValues args) w of
        (Inl err, w1) \<Rightarrow> (Inl err, w1)
      | (Inr result, w1) \<Rightarrow> (Inr result, w1))"

definition mysqlStmt_Query ::
  "'w vendor \<Rightarrow> mysqlStmt \<Rightarrow> dvalue list \<Rightarrow> 'w \<Rightarrow> (error + mysqlRows) \<times> 'w" where
  "mysqlStmt_Query V s args w =
     (case Stmt_QueryContext V (stmt s) Background (ToNamedValues args) w of
        (Inl err, w1) \<Rightarrow> (Inl err, w1)
      | (Inr r, w1) \<Rightarrow> (Inr \<lparr>rows = r\<rparr>, w1))"

subsection \<open>mysqlTx\<close>

definition mysqlTx_Commit :: "'w vendor \<Rightarrow> mysqlTx \<Rightarrow> 'w \<Rightarrow> error option \<times> 'w" where
  "mysqlTx_Commit V t w = Tx_Commit V (tx t) w"

definition mysqlTx_Rollback :: "'w vendor \<Rightarrow> mysqlTx \<Rightarrow> 'w \<Rightarrow> error option \<times> 'w" where
  "mysqlTx_Rollback V t w = Tx_Rollback V (tx t) w"

subsection \<open>mysqlRows\<close>

definition mysqlRows_Columns :: "'w vendor \<Rightarrow> mysqlRows \<Rightarrow> 'w \<Rightarrow> string list \<times> 'w" where
  "mysqlRows_Columns V r w =
     (case Rows_Columns V (rows r) w of ((cols, _), w1) \<Rightarrow> (cols, w1))"

definition mysqlRows_Close :: "'w vendor \<Rightarrow> mysqlRows \<Rightarrow> 'w \<Rightarrow> error option \<times> 'w" where
  "mysqlRows_Close V r w = Rows_Close V (rows r) w"

text \<open>
  \<^verbatim>\<open>args := make([]any, len(dest))\<close> is a list of nil interfaces;
  \<^verbatim>\<open>for i := range dest { args[i] = &dest[i] }\<close> stores, for each index of \<open>dest\<close> in
  turn, the address of that slot.
\<close>

definition slot_addr :: "slice \<Rightarrow> nat \<Rightarrow> nat" where
  "slot_addr dest i = sl_ptr dest + i"

definition bind_slots :: "slice \<Rightarrow> anyv list" where
  "bind_slots dest =
     fold (\<lambda>i args. args[i := PtrTo (slot_addr dest i)]) [0..<sl_len dest]
       (replicate (sl_len dest) NilAny)"

definition mysqlRows_Next ::
  "'w vendor \<Rightarrow> mysqlRows \<Rightarrow> slice \<Rightarrow> heap \<Rightarrow> 'w \<Rightarrow> error option \<times> heap \<times> 'w" where
  "mysqlRows_Next V r dest h w = Rows_Scan V (rows r) (bind_slots dest) h w"

section \<open>Observing the vendor calls\<close>

text \<open>
  An event is one vendor call: the primitive with the handle and arguments it was called
  with, and what it returned. \<open>logged V\<close> is the vendor \<open>V\<close> with a call log beside
  its world; it answers exactly as \<open>V\<close> does.
\<close>

datatype vcall =
    VOpen string string
  | VPingContext sql_DB Context
  | VDBClose sql_DB
  | VPrepareContext sql_DB Context string
  | VBeginTx sql_DB Context "sql_TxOptions option"
  | VStmtClose sql_Stmt
  | VExecContext sql_Stmt Context "namedValue list"
  | VQueryContext sql_Stmt Context "namedValue list"
  | VCommit sql_Tx
  | VRollback sql_Tx
  | VColumns sql_Rows
  | VRowsClose sql_Rows
  | VRowsNext sql_Rows
  | VScan sql_Rows "anyv list"

datatype vresult =
    RDB "error + sql_DB"
  | RErr "error option"
  | RStmt "error + sql_Stmt"
  | RTx "error + sql_Tx"
  | RResult "error + sql_Result"
  | RRows "error + sql_Rows"
  | RColumns "string list" "error option"
  | RMore bool

type_synonym event = "vcall \<times> vresult"

definition observe ::
  "vcall \<Rightarrow> ('r \<Rightarrow> vresult) \<Rightarrow> ('w \<Rightarrow> 'r \<times> 'w) \<Rightarrow> 'w \<times> event list \<Rightarrow> 'r \<times> 'w \<times> event list" where
  "observe vc res f s = (case f (fst s) of (r, w') \<Rightarrow> (r, w', snd s @ [(vc, res r)]))"

definition logged :: "'w vendor \<Rightarrow> ('w \<times> event list) vendor" where
  "logged V =
     \<lparr> sql_Open = (\<lambda>drv d. observe (VOpen drv d) RDB (sql_Open V drv d)),
       DB_PingContext = (\<lambda>d ctx. observe (VPingContext d ctx) RErr (DB_PingContext V d ctx)),
       DB_Close = (\<lambda>d. observe (VDBClose d) RErr (DB_Close V d)),
       DB_PrepareContext =
         (\<lambda>d ctx q. observe (VPrepareContext d ctx q) RStmt (DB_PrepareContext V d ctx q)),
       DB_BeginTx =
         (\<lambda>d ctx opts. observe (VBeginTx d ctx opts) RTx (DB_BeginTx V d ctx opts)),
       Stmt_Close = (\<lambda>s. observe (VStmtClose s) RErr (Stmt_Close V s)),
       Stmt_ExecContext =
         (\<lambda>s ctx args. observe (VExecContext s ctx args) RResult (Stmt_ExecContext V s ctx args)),
       Stmt_QueryContext =
         (\<lambda>s ctx args. observe (VQueryContext s ctx args) RRows (Stmt_QueryContext V s ctx args)),
       Tx_Commit = (\<lambda>t. observe (VCommit t) RErr (Tx_Commit V t)),
       Tx_Rollback = (\<lambda>t. observe (VRollback t) RErr (Tx_Rollback V t)),
       Rows_Columns =
         (\<lambda>r. observe (VColumns r) (\<lambda>res. RColumns (fst res) (snd res)) (Rows_Columns V r)),
       Rows_Close = (\<lambda>r. observe (VRowsClose r) RErr (Rows_Close V r)),
       Rows_Next = (\<lambda>r. observe (VRowsNext r) RMore (Rows_Next V r)),
       Rows_Scan = (\<lambda>r ptrs h s.
          case Rows_Scan V r ptrs h (fst s) of
            (e, h', w') \<Rightarrow> (e, h', w', snd s @ [(VScan r ptrs, RErr e)])) \<rparr>"

text \<open>The sessions a log leaves open: the handles a successful \<^verbatim>\<open>sql.Open\<close> returned
  and no later \<^verbatim>\<open>DB.Close\<close> was called on.\<close>

fun track_session :: "event \<Rightarrow> sql_DB list \<Rightarrow> sql_DB list" where
  "track_session (VOpen drv d, RDB (Inr h)) open_now = h # open_now"
| "track_session (VDBClose h, res) open_now = removeAll h open_now"
| "track_session ev open_now = open_now"

definition open_sessions :: "event list \<Rightarrow> sql_DB list" where
  "open_sessions tr = fold track_session tr []"

text \<open>The context and the parameters a vendor call was given, for the calls that take
  them.\<close>

fun call_context :: "vcall \<Rightarrow> Context option" where
  "call_context (VPingContext d ctx) = Some ctx"
| "call_context (VPrepareContext d ctx q) = Some ctx"
| "call_context (VBeginTx d ctx opts) = Some ctx"
| "call_context (VExecContext s ctx args) = Some ctx"
| "call_context (VQueryContext s ctx args) = Some ctx"
| "call_context vc = None"

fun call_params :: "vcall \<Rightarrow> namedValue list option" where
  "call_params (VExecContext s ctx args) = Some args"
| "call_params (VQueryContext s ctx args) = Some args"
| "call_params vc = None"

section \<open>Sequences of calls on the adapter\<close>

text \<open>
  A caller of the driver interfaces issues method calls on the adapter values it holds, one
  after the other. \<open>invoke\<close> is one call, \<open>run\<close> a sequence of them on the store and
  the vendor world.
\<close>

datatype call =
    Prepare mysqlConn string
  | Begin mysqlConn
  | ConnClose mysqlConn
  | StmtClose mysqlStmt
  | Exec mysqlStmt "dvalue list"
  | Query mysqlStmt "dvalue list"
  | Commit mysqlTx
  | Rollback mysqlTx
  | Columns mysqlRows
  | RowsClose mysqlRows
  | Next mysqlRows slice

datatype outcome =
    GotStmt "error + mysqlStmt"
  | GotTx "error + mysqlTx"
  | GotErr "error option"
  | GotResult "error + sql_Result"
  | GotRows "error + mysqlRows"
  | GotColumns "string list"

fun invoke :: "'w vendor \<Rightarrow> call \<Rightarrow> heap \<times> 'w \<Rightarrow> outcome \<times> heap \<times> 'w" where
  "invoke V (Prepare c q) (h, w) = (case mysqlConn_Prepare V c q w of (r, w') \<Rightarrow> (GotStmt r, h, w'))"
| "invoke V (Begin c) (h, w) = (case mysqlConn_Begin V c w of (r, w') \<Rightarrow> (GotTx r, h, w'))"
| "invoke V (ConnClose c) (h, w) = (case mysqlConn_Close V c w of (e, w') \<Rightarrow> (GotErr e, h, w'))"
| "invoke V (StmtClose s) (h, w) = (case mysqlStmt_Close V s w of (e, w') \<Rightarrow> (GotErr e, h, w'))"
| "invoke V (Exec s args) (h, w) = (case mysqlStmt_Exec V s args w of (r, w') \<Rightarrow> (GotResult r, h, w'))"
| "invoke V (Query s args) (h, w) = (case mysqlStmt_Query V s args w of (r, w') \<Rightarrow> (GotRows r, h, w'))"
| "invoke V (Commit t) (h, w) = (case mysqlTx_Commit V t w of (e, w') \<Rightarrow> (GotErr e, h, w'))"
| "invoke V (Rollback t) (h, w) = (case mysqlTx_Rollback V t w of (e, w') \<Rightarrow> (GotErr e, h, w'))"
| "invoke V (Columns r) (h, w) = (case mysqlRows_Columns V r w of (cols, w') \<Rightarrow> (GotColumns cols, h, w'))"
| "invoke V (RowsClose r) (h, w) = (case mysqlRows_Close V r w of (e, w') \<Rightarrow> (GotErr e, h, w'))"
| "invoke V (Next r dest) (h, w) = (case mysqlRows_Next V r dest h w of (e, h', w') \<Rightarrow> (GotErr e, h', w'))"

fun run :: "'w vendor \<Rightarrow> call list \<Rightarrow> heap \<times> 'w \<Rightarrow> outcome list \<times> heap \<times> 'w" where
  "run V [] s = ([], s)"
| "run V (cl # cls) s =
     (case invoke V cl s of (out, s') \<Rightarrow> (case run V cls s' of (outs, s'') \<Rightarrow> (out # outs, s'')))"

text \<open>The one vendor call each method makes, on the handle its receiver stores.\<close>

fun delegate :: "call \<Rightarrow> vcall" where
  "delegate (Prepare c q) = VPrepareContext (db c) Background q"
| "delegate (Begin c) = VBeginTx (db c) Background None"
| "delegate (ConnClose c) = VDBClose (db c)"
| "delegate (StmtClose s) = VStmtClose (stmt s)"
| "delegate (Exec s args) = VExecContext (stmt s) Background (ToNamedValues args)"
| "delegate (Query s args) = VQueryContext (stmt s) Background (ToNamedValues args)"
| "delegate (Commit t) = VCommit (tx t)"
| "delegate (Rollback t) = VRollback (tx t)"
| "delegate (Columns r) = VColumns (rows r)"
| "delegate (RowsClose r) = VRowsClose (rows r)"
| "delegate (Next r dest) = VScan (rows r) (bind_slots dest)"

text \<open>What a vendor result looks like once the method that received it has returned it:
  a handle wrapped in the adapter's struct, an error as it is, the column names without
  their error.\<close>

fun returned :: "vresult \<Rightarrow> outcome option" where
  "returned (RStmt r) = Some (GotStmt (case r of Inl e \<Rightarrow> Inl e | Inr s \<Rightarrow> Inr \<lparr>stmt = s\<rparr>))"
| "returned (RTx r) = Some (GotTx (case r of Inl e \<Rightarrow> Inl e | Inr t \<Rightarrow> Inr \<lparr>tx = t\<rparr>))"
| "returned (RErr e) = Some (GotErr e)"
| "returned (RResult r) = Some (GotResult r)"
| "returned (RRows r) = Some (GotRows (case r of Inl e \<Rightarrow> Inl e | Inr c \<Rightarrow> Inr \<lparr>rows = c\<rparr>))"
| "returned (RColumns cols e) = Some (GotColumns cols)"
| "returned (RDB r) = None"
| "returned (RMore b) = None"





section \<open>A reference vendor\<close>

text \<open>
  An executable double of \<^verbatim>\<open>database/sql\<close> over a scripted server, for running the
  adapter on concrete inputs. It follows the package's documented behaviour where the
  adapter depends on it: \<^verbatim>\<open>Rows.Next\<close> "prepares the next result row for reading with
  the Scan method", returns false when there is none and then closes the rows;
  \<^verbatim>\<open>Rows.Scan\<close> "copies the columns in the current row into the values pointed at by
  dest" and fails when no \<^verbatim>\<open>Next\<close> came before it; \<^verbatim>\<open>Rows.Columns\<close> "returns an
  error if the rows are closed"; \<^verbatim>\<open>Tx.Commit\<close> and \<^verbatim>\<open>Tx.Rollback\<close> return
  \<^verbatim>\<open>ErrTxDone\<close> on a transaction that "has already been committed or rolled back".
  The server is a script: the connection strings the driver parses, whether the server
  answers, and the result set every query returns.
\<close>

record cursor =
  columns :: "string list"
  pending :: "dvalue list list"
  lastcols :: "dvalue list option"
  closed :: bool

record sqlworld =
  accepted_dsns :: "string list"
  reachable :: bool
  resultset :: "string list \<times> dvalue list list"
  fresh :: nat
  sessions :: "sql_DB list"
  active_txs :: "sql_Tx list"
  cursors :: "(sql_Rows \<times> cursor) list"

definition io_EOF :: error where
  "io_EOF = New ''EOF''"

definition ErrTxDone :: error where
  "ErrTxDone = New ''sql: transaction has already been committed or rolled back''"

definition errDBClosed :: error where
  "errDBClosed = New ''sql: database is closed''"

definition errRowsClosed :: error where
  "errRowsClosed = New ''sql: Rows are closed''"

definition errNoRows :: error where
  "errNoRows = New ''sql: no Rows available''"

definition errScanWithoutNext :: error where
  "errScanWithoutNext = New ''sql: Scan called without calling Next''"

definition errScanArity :: error where
  "errScanArity = New ''sql: unexpected number of destination arguments in Scan''"

definition errNotPointer :: error where
  "errNotPointer = New ''destination not a pointer''"

definition errInvalidDSN :: error where
  "errInvalidDSN = New ''invalid DSN''"

definition errBadConn :: error where
  "errBadConn = New ''driver: bad connection''"

definition context_Canceled :: error where
  "context_Canceled = New ''context canceled''"

definition std_Open :: "string \<Rightarrow> string \<Rightarrow> sqlworld \<Rightarrow> (error + sql_DB) \<times> sqlworld" where
  "std_Open drv d w =
     (if drv = ''mysql'' \<and> d \<in> set (accepted_dsns w)
      then (Inr (DB (fresh w)), w\<lparr>fresh := fresh w + 1, sessions := DB (fresh w) # sessions w\<rparr>)
      else (Inl errInvalidDSN, w))"

definition std_PingContext :: "sql_DB \<Rightarrow> Context \<Rightarrow> sqlworld \<Rightarrow> error option \<times> sqlworld" where
  "std_PingContext d ctx w =
     (if ctx = CallerCtx True then (Some context_Canceled, w)
      else if d \<notin> set (sessions w) then (Some errDBClosed, w)
      else if reachable w then (None, w)
      else (Some errBadConn, w))"

definition std_DBClose :: "sql_DB \<Rightarrow> sqlworld \<Rightarrow> error option \<times> sqlworld" where
  "std_DBClose d w = (None, w\<lparr>sessions := removeAll d (sessions w)\<rparr>)"

definition std_PrepareContext ::
  "sql_DB \<Rightarrow> Context \<Rightarrow> string \<Rightarrow> sqlworld \<Rightarrow> (error + sql_Stmt) \<times> sqlworld" where
  "std_PrepareContext d ctx q w =
     (if ctx = CallerCtx True then (Inl context_Canceled, w)
      else if d \<notin> set (sessions w) then (Inl errDBClosed, w)
      else if reachable w then (Inr (Stmt (fresh w)), w\<lparr>fresh := fresh w + 1\<rparr>)
      else (Inl errBadConn, w))"

definition std_BeginTx ::
  "sql_DB \<Rightarrow> Context \<Rightarrow> sql_TxOptions option \<Rightarrow> sqlworld \<Rightarrow> (error + sql_Tx) \<times> sqlworld" where
  "std_BeginTx d ctx opts w =
     (if ctx = CallerCtx True then (Inl context_Canceled, w)
      else if d \<notin> set (sessions w) then (Inl errDBClosed, w)
      else if reachable w
      then (Inr (Tx (fresh w)), w\<lparr>fresh := fresh w + 1, active_txs := Tx (fresh w) # active_txs w\<rparr>)
      else (Inl errBadConn, w))"

definition std_StmtClose :: "sql_Stmt \<Rightarrow> sqlworld \<Rightarrow> error option \<times> sqlworld" where
  "std_StmtClose s w = (None, w)"

definition std_ExecContext ::
  "sql_Stmt \<Rightarrow> Context \<Rightarrow> namedValue list \<Rightarrow> sqlworld \<Rightarrow> (error + sql_Result) \<times> sqlworld" where
  "std_ExecContext s ctx args w =
     (if ctx = CallerCtx True then (Inl context_Canceled, w)
      else if reachable w then (Inr (Result 0 (int (length (snd (resultset w))))), w)
      else (Inl errBadConn, w))"

definition std_QueryContext ::
  "sql_Stmt \<Rightarrow> Context \<Rightarrow> namedValue list \<Rightarrow> sqlworld \<Rightarrow> (error + sql_Rows) \<times> sqlworld" where
  "std_QueryContext s ctx args w =
     (if ctx = CallerCtx True then (Inl context_Canceled, w)
      else if reachable w
      then (Inr (Rows (fresh w)),
            w\<lparr>fresh := fresh w + 1,
              cursors := (Rows (fresh w),
                \<lparr>columns = fst (resultset w), pending = snd (resultset w),
                 lastcols = None, closed = False\<rparr>) # cursors w\<rparr>)
      else (Inl errBadConn, w))"

definition std_Commit :: "sql_Tx \<Rightarrow> sqlworld \<Rightarrow> error option \<times> sqlworld" where
  "std_Commit t w =
     (if t \<in> set (active_txs w) then (None, w\<lparr>active_txs := removeAll t (active_txs w)\<rparr>)
      else (Some ErrTxDone, w))"

definition std_Rollback :: "sql_Tx \<Rightarrow> sqlworld \<Rightarrow> error option \<times> sqlworld" where
  "std_Rollback t w =
     (if t \<in> set (active_txs w) then (None, w\<lparr>active_txs := removeAll t (active_txs w)\<rparr>)
      else (Some ErrTxDone, w))"

definition std_Columns :: "sql_Rows \<Rightarrow> sqlworld \<Rightarrow> (string list \<times> error option) \<times> sqlworld" where
  "std_Columns r w =
     (case map_of (cursors w) r of
        None \<Rightarrow> (([], Some errNoRows), w)
      | Some c \<Rightarrow> if closed c then (([], Some errRowsClosed), w) else ((columns c, None), w))"

definition std_RowsClose :: "sql_Rows \<Rightarrow> sqlworld \<Rightarrow> error option \<times> sqlworld" where
  "std_RowsClose r w =
     (case map_of (cursors w) r of
        None \<Rightarrow> (None, w)
      | Some c \<Rightarrow> (None, w\<lparr>cursors := (r, c\<lparr>closed := True\<rparr>) # cursors w\<rparr>))"

definition std_RowsNext :: "sql_Rows \<Rightarrow> sqlworld \<Rightarrow> bool \<times> sqlworld" where
  "std_RowsNext r w =
     (case map_of (cursors w) r of
        None \<Rightarrow> (False, w)
      | Some c \<Rightarrow>
          if closed c then (False, w)
          else (case pending c of
                  [] \<Rightarrow> (False, w\<lparr>cursors := (r, c\<lparr>lastcols := None, closed := True\<rparr>) # cursors w\<rparr>)
                | row # rest \<Rightarrow>
                    (True, w\<lparr>cursors := (r, c\<lparr>pending := rest, lastcols := Some row\<rparr>) # cursors w\<rparr>)))"

fun convertAssign_all :: "anyv list \<Rightarrow> dvalue list \<Rightarrow> heap \<Rightarrow> error option \<times> heap" where
  "convertAssign_all (PtrTo p # ds) (v # vs) h = convertAssign_all ds vs (h[p := v])"
| "convertAssign_all (NilAny # ds) (v # vs) h = (Some errNotPointer, h)"
| "convertAssign_all ds vs h = (None, h)"

definition std_Scan ::
  "sql_Rows \<Rightarrow> anyv list \<Rightarrow> heap \<Rightarrow> sqlworld \<Rightarrow> error option \<times> heap \<times> sqlworld" where
  "std_Scan r dest h w =
     (case map_of (cursors w) r of
        None \<Rightarrow> (Some errNoRows, h, w)
      | Some c \<Rightarrow>
          if closed c then (Some errRowsClosed, h, w)
          else (case lastcols c of
                  None \<Rightarrow> (Some errScanWithoutNext, h, w)
                | Some row \<Rightarrow>
                    if length dest \<noteq> length row then (Some errScanArity, h, w)
                    else (case convertAssign_all dest row h of (e, h') \<Rightarrow> (e, h', w))))"

definition stdsql :: "sqlworld vendor" where
  "stdsql =
     \<lparr> sql_Open = std_Open,
       DB_PingContext = std_PingContext,
       DB_Close = std_DBClose,
       DB_PrepareContext = std_PrepareContext,
       DB_BeginTx = std_BeginTx,
       Stmt_Close = std_StmtClose,
       Stmt_ExecContext = std_ExecContext,
       Stmt_QueryContext = std_QueryContext,
       Tx_Commit = std_Commit,
       Tx_Rollback = std_Rollback,
       Rows_Columns = std_Columns,
       Rows_Close = std_RowsClose,
       Rows_Next = std_RowsNext,
       Rows_Scan = std_Scan \<rparr>"

text \<open>A server that answers every query with the columns \<open>id\<close>, \<open>name\<close> and the given
  rows, and accepts the connection string of the spec's scenario.\<close>

definition server :: "dvalue list list \<Rightarrow> bool \<Rightarrow> sqlworld" where
  "server table up =
     \<lparr> accepted_dsns = [''user:pass@tcp(host:3306)/db''],
       reachable = up,
       resultset = ([''id'', ''name''], table),
       fresh = 0,
       sessions = [],
       active_txs = [],
       cursors = [] \<rparr>"

section \<open>Concrete runs\<close>

text \<open>The spec's scenario on the reference vendor: the connection string
  \<^verbatim>\<open>user:pass@tcp(host:3306)/db\<close>, the query
  \<^verbatim>\<open>SELECT id, name FROM t WHERE id = ?\<close> with the argument 5, a destination of two
  slots.\<close>

definition connector0 :: Connector where
  "connector0 = \<lparr>dsn = ''user:pass@tcp(host:3306)/db''\<rparr>"

definition dest0 :: slice where
  "dest0 = \<lparr>sl_ptr = 0, sl_len = 2, sl_cap = 2\<rparr>"

text \<open>\<^verbatim>\<open>Connect\<close>, \<^verbatim>\<open>Prepare\<close> and \<^verbatim>\<open>Query\<close> against a server holding the given
  rows: the cursor \<^verbatim>\<open>Query\<close> returns and the world it leaves.\<close>

definition query_cursor :: "dvalue list list \<Rightarrow> (mysqlRows \<times> sqlworld) option" where
  "query_cursor table =
     (case Connector_Connect stdsql connector0 Background (server table True) of
        (Inl err, w1) \<Rightarrow> None
      | (Inr c, w1) \<Rightarrow>
          (case mysqlConn_Prepare stdsql c ''SELECT id, name FROM t WHERE id = ?'' w1 of
             (Inl err, w2) \<Rightarrow> None
           | (Inr s, w2) \<Rightarrow>
               (case mysqlStmt_Query stdsql s [VInt64 5] w2 of
                  (Inl err, w3) \<Rightarrow> None
                | (Inr r, w3) \<Rightarrow> Some (r, w3))))"

text \<open>The first \<^verbatim>\<open>Next\<close> on that cursor, into two nil slots: the error it returns, the
  slots afterwards, and the vendor's cursor afterwards.\<close>

definition first_Next :: "dvalue list list \<Rightarrow> (error option \<times> heap \<times> cursor option) option" where
  "first_Next table =
     (case query_cursor table of
        None \<Rightarrow> None
      | Some (r, w) \<Rightarrow>
          (case mysqlRows_Next stdsql r dest0 [VNil, VNil] w of
             (e, h, w') \<Rightarrow> Some (e, h, map_of (cursors w') (rows r))))"



text \<open>A world of the reference vendor with one session \<open>DB 0\<close> and one cursor
  \<open>Rows 2\<close> in the given state.\<close>

definition cursor_world :: "cursor \<Rightarrow> sqlworld" where
  "cursor_world c =
     \<lparr> accepted_dsns = [''user:pass@tcp(host:3306)/db''],
       reachable = True,
       resultset = ([''id'', ''name''], [ [VInt64 5, VString ''bob''] ]),
       fresh = 3,
       sessions = [DB 0],
       active_txs = [],
       cursors = [(Rows 2, c)] \<rparr>"

text \<open>The cursor as \<^verbatim>\<open>QueryContext\<close> creates it, before the first row; the cursor after
  one \<^verbatim>\<open>Rows.Next\<close>, on the row; the cursor after \<^verbatim>\<open>Rows.Close\<close>.\<close>

definition fresh_rows :: cursor where
  "fresh_rows = \<lparr>columns = [''id'', ''name''], pending = [ [VInt64 5, VString ''bob''] ],
                 lastcols = None, closed = False\<rparr>"


definition closed_rows :: cursor where
  "closed_rows = \<lparr>columns = [''id'', ''name''], pending = [], lastcols = None, closed = True\<rparr>"

section \<open>Properties\<close>

subsection \<open>Auxiliary facts\<close>

lemmas std_defs = stdsql_def std_Open_def std_PingContext_def std_DBClose_def
  std_PrepareContext_def std_BeginTx_def std_StmtClose_def std_ExecContext_def
  std_QueryContext_def std_Commit_def std_Rollback_def std_Columns_def std_RowsClose_def
  std_RowsNext_def std_Scan_def

lemma observe_pair:
  "observe vc res f (w, tr) = (fst (f w), snd (f w), tr @ [(vc, res (fst (f w)))])"
  by (simp add: observe_def split: prod.splits)

lemma logged_sel:
  "sql_Open (logged V) drv d = observe (VOpen drv d) RDB (sql_Open V drv d)"
  "DB_PingContext (logged V) h ctx = observe (VPingContext h ctx) RErr (DB_PingContext V h ctx)"
  "DB_Close (logged V) h = observe (VDBClose h) RErr (DB_Close V h)"
  "DB_PrepareContext (logged V) h ctx q =
     observe (VPrepareContext h ctx q) RStmt (DB_PrepareContext V h ctx q)"
  "DB_BeginTx (logged V) h ctx opts = observe (VBeginTx h ctx opts) RTx (DB_BeginTx V h ctx opts)"
  "Stmt_Close (logged V) st = observe (VStmtClose st) RErr (Stmt_Close V st)"
  "Stmt_ExecContext (logged V) st ctx args =
     observe (VExecContext st ctx args) RResult (Stmt_ExecContext V st ctx args)"
  "Stmt_QueryContext (logged V) st ctx args =
     observe (VQueryContext st ctx args) RRows (Stmt_QueryContext V st ctx args)"
  "Tx_Commit (logged V) t = observe (VCommit t) RErr (Tx_Commit V t)"
  "Tx_Rollback (logged V) t = observe (VRollback t) RErr (Tx_Rollback V t)"
  "Rows_Columns (logged V) r =
     observe (VColumns r) (\<lambda>res. RColumns (fst res) (snd res)) (Rows_Columns V r)"
  "Rows_Close (logged V) r = observe (VRowsClose r) RErr (Rows_Close V r)"
  "Rows_Next (logged V) r = observe (VRowsNext r) RMore (Rows_Next V r)"
  "Rows_Scan (logged V) r ptrs hp (w, tr) =
     (fst (Rows_Scan V r ptrs hp w), fst (snd (Rows_Scan V r ptrs hp w)),
      snd (snd (Rows_Scan V r ptrs hp w)),
      tr @ [(VScan r ptrs, RErr (fst (Rows_Scan V r ptrs hp w)))])"
  by (simp_all add: logged_def split: prod.splits)

text \<open>Every method of the call interface makes exactly one vendor call, the one
  \<open>delegate\<close> names, and returns that call's result.\<close>

lemma invoke_logged:
  "invoke (logged V) cl (h, w, tr) = (out, h', w', tr') \<Longrightarrow>
     \<exists>res. tr' = tr @ [(delegate cl, res)] \<and> returned res = Some out"
  by (cases cl)
     (auto simp: mysqlConn_Prepare_def mysqlConn_Begin_def mysqlConn_Close_def
        mysqlStmt_Close_def mysqlStmt_Exec_def mysqlStmt_Query_def mysqlTx_Commit_def
        mysqlTx_Rollback_def mysqlRows_Columns_def mysqlRows_Close_def mysqlRows_Next_def
        logged_sel observe_pair
      split: prod.splits sum.splits)

lemma run_logged:
  "run (logged V) cs (h, w, tr) = (outs, h', w', tr') \<Longrightarrow>
     \<exists>evs. tr' = tr @ evs \<and> map fst evs = map delegate cs
       \<and> map (\<lambda>ev. returned (snd ev)) evs = map Some outs"
proof (induction cs arbitrary: h w tr outs h' w' tr')
  case Nil
  then show ?case by simp
next
  case (Cons cl cs)
  obtain out h1 w1 tr1 where step: "invoke (logged V) cl (h, w, tr) = (out, h1, w1, tr1)"
    by (metis prod_cases4)
  obtain outs1 h2 w2 tr2 where rest: "run (logged V) cs (h1, w1, tr1) = (outs1, h2, w2, tr2)"
    by (metis prod_cases4)
  from Cons.prems step rest have eqs: "outs = out # outs1" "tr' = tr2"
    by simp_all
  from invoke_logged[OF step] obtain res where
    res: "tr1 = tr @ [(delegate cl, res)]" "returned res = Some out"
    by blast
  from Cons.IH[OF rest] obtain evs where
    evs: "tr2 = tr1 @ evs" "map fst evs = map delegate cs"
      "map (\<lambda>ev. returned (snd ev)) evs = map Some outs1"
    by blast
  show ?case
    by (rule exI[of _ "(delegate cl, res) # evs"]) (simp add: eqs res evs)
qed




lemma Is_refl: "Is e e"
  by (cases e) simp_all

lemma Value_enumerate: "map (\<lambda>p. snd p) (enumerate n xs) = xs"
  by (induction xs arbitrary: n) simp_all

lemma Ordinal_enumerate: "map (\<lambda>p. Suc (fst p)) (enumerate n xs) = [Suc n..<Suc (n + length xs)]"
  by (induction xs arbitrary: n) (simp_all add: upt_conv_Cons del: upt_Suc)

lemma Value_ToNamedValues: "map Value (ToNamedValues args) = args"
  by (simp add: ToNamedValues_def comp_def Value_enumerate)

lemma Ordinal_ToNamedValues: "map Ordinal (ToNamedValues args) = [1..<length args + 1]"
  using Ordinal_enumerate[of 0 args] by (simp add: ToNamedValues_def comp_def)

lemma std_Columns_nil_on_error:
  "snd (fst (std_Columns h w)) \<noteq> None \<Longrightarrow> fst (fst (std_Columns h w)) = []"
  by (simp add: std_Columns_def split: option.splits if_splits)

text \<open>The loop of \<^verbatim>\<open>Next\<close> leaves, at every index, the address of the slot with that
  index.\<close>

lemma fold_bind:
  "k \<le> length xs \<Longrightarrow>
     fold (\<lambda>i args. args[i := f i]) [0..<k] xs = map f [0..<k] @ drop k xs"
proof (induction k)
  case 0
  then show ?case by simp
next
  case (Suc k)
  then have k: "k < length xs" by simp
  have "fold (\<lambda>i args. args[i := f i]) [0..<Suc k] xs = (map f [0..<k] @ drop k xs)[k := f k]"
    using Suc by simp
  also have "\<dots> = map f [0..<k] @ (drop k xs)[0 := f k]"
    by (simp add: list_update_append)
  also have "(drop k xs)[0 := f k] = f k # drop (Suc k) xs"
    using k by (simp add: Cons_nth_drop_Suc[symmetric])
  finally show ?case by simp
qed

lemma bind_slots_eq: "bind_slots dest = map (\<lambda>i. PtrTo (sl_ptr dest + i)) [0..<sl_len dest]"
  using fold_bind[of "sl_len dest" "replicate (sl_len dest) NilAny" "\<lambda>i. PtrTo (slot_addr dest i)"]
  by (simp add: bind_slots_def slot_addr_def)


subsection \<open>Result cursor: Next\<close>

text \<open>
  C1. The claim: \<^verbatim>\<open>Next\<close> fills the slots for the current row and advances the cursor,
  and returns the end-of-data sentinel when the result set is exhausted; on a query with
  zero rows the first \<^verbatim>\<open>Next\<close> returns end-of-data. The code does not do this.
  Whatever the vendor, \<^verbatim>\<open>mysqlRows.Next\<close> makes one vendor call, \<^verbatim>\<open>Rows.Scan\<close>, and
  never \<^verbatim>\<open>Rows.Next\<close>, the only primitive that moves the cursor or detects the end. On
  the reference vendor, the first \<^verbatim>\<open>Next\<close> on the cursor of the spec's scenario returns
  "sql: Scan called without calling Next", which is not \<^verbatim>\<open>io.EOF\<close>, both for a result
  of zero rows and for a result of one row; the slots stay nil and the cursor stays before
  the first row.
\<close>

theorem Next_never_advances:
  "map fst (snd (snd (snd (mysqlRows_Next (logged V) r dest h (w, []))))) =
     [VScan (rows r) (bind_slots dest)]
   \<and> first_Next [] =
     Some (Some errScanWithoutNext, [VNil, VNil],
           Some \<lparr>columns = [''id'', ''name''], pending = [], lastcols = None, closed = False\<rparr>)
   \<and> first_Next [ [VInt64 5, VString ''bob''] ] =
     Some (Some errScanWithoutNext, [VNil, VNil],
           Some \<lparr>columns = [''id'', ''name''], pending = [ [VInt64 5, VString ''bob''] ],
                 lastcols = None, closed = False\<rparr>)
   \<and> errScanWithoutNext \<noteq> io_EOF"
proof -
  have calls: "map fst (snd (snd (snd (mysqlRows_Next (logged V) r dest h (w, []))))) =
      [VScan (rows r) (bind_slots dest)]"
    by (simp add: mysqlRows_Next_def logged_sel)
  have zero: "first_Next [] =
      Some (Some errScanWithoutNext, [VNil, VNil],
            Some \<lparr>columns = [''id'', ''name''], pending = [], lastcols = None, closed = False\<rparr>)"
    by (simp add: first_Next_def query_cursor_def connector0_def dest0_def server_def
        Connector_Connect_def mysqlConn_Prepare_def mysqlStmt_Query_def mysqlRows_Next_def
        std_defs)
  have one: "first_Next [ [VInt64 5, VString ''bob''] ] =
      Some (Some errScanWithoutNext, [VNil, VNil],
            Some \<lparr>columns = [''id'', ''name''], pending = [ [VInt64 5, VString ''bob''] ],
                  lastcols = None, closed = False\<rparr>)"
    by (simp add: first_Next_def query_cursor_def connector0_def dest0_def server_def
        Connector_Connect_def mysqlConn_Prepare_def mysqlStmt_Query_def mysqlRows_Next_def
        std_defs)
  have "errScanWithoutNext \<noteq> io_EOF"
    by (simp add: errScanWithoutNext_def io_EOF_def)
  with calls zero one show ?thesis by simp
qed

subsection \<open>Transaction: Commit and Rollback\<close>




subsection \<open>Connector: Connect\<close>

text \<open>
  C3. \<^verbatim>\<open>Connect\<close> reports success only after \<^verbatim>\<open>sql.Open\<close> and then a successful
  \<^verbatim>\<open>PingContext\<close> on the opened handle, with the caller's context. When it reports an
  error, its vendor calls leave no session open: either \<^verbatim>\<open>sql.Open\<close> itself failed, or
  the ping failed, for whatever reason the vendor gives (a cancelled context included), and
  \<^verbatim>\<open>Close\<close> was called on the just-opened handle as the last vendor call before the
  return.
\<close>

theorem Connect_pings_and_releases:
  assumes "Connector_Connect (logged V) c ctx (w, []) = (r, w', tr)"
  shows "case r of
           Inr conn \<Rightarrow>
             tr = [(VOpen ''mysql'' (dsn c), RDB (Inr (db conn))),
                   (VPingContext (db conn) ctx, RErr None)]
         | Inl err \<Rightarrow>
             open_sessions tr = [] \<and>
             ((\<exists>e. tr = [(VOpen ''mysql'' (dsn c), RDB (Inl e))]) \<or>
              (\<exists>d e res. tr = [(VOpen ''mysql'' (dsn c), RDB (Inr d)),
                                (VPingContext d ctx, RErr (Some e)), (VDBClose d, RErr res)]))"
  using assms
  by (auto simp: Connector_Connect_def logged_sel observe_pair open_sessions_def
      split: prod.splits sum.splits option.splits)

theorem Connect_pings_and_releases_witness:
  "Connector_Connect (logged stdsql) connector0 (CallerCtx True) (server [] True, []) =
     (Inl (Errorf_w ''failed to ping mysql: '' context_Canceled),
      (server [] True)\<lparr>fresh := 1\<rparr>,
      [(VOpen ''mysql'' ''user:pass@tcp(host:3306)/db'', RDB (Inr (DB 0))),
       (VPingContext (DB 0) (CallerCtx True), RErr (Some context_Canceled)),
       (VDBClose (DB 0), RErr None)])
   \<and> open_sessions
       [(VOpen ''mysql'' ''user:pass@tcp(host:3306)/db'', RDB (Inr (DB 0))),
        (VPingContext (DB 0) (CallerCtx True), RErr (Some context_Canceled)),
        (VDBClose (DB 0), RErr None)] = []"
proof -
  have h: "Connector_Connect (logged stdsql) connector0 (CallerCtx True) (server [] True, []) =
     (Inl (Errorf_w ''failed to ping mysql: '' context_Canceled),
      (server [] True)\<lparr>fresh := 1\<rparr>,
      [(VOpen ''mysql'' ''user:pass@tcp(host:3306)/db'', RDB (Inr (DB 0))),
       (VPingContext (DB 0) (CallerCtx True), RErr (Some context_Canceled)),
       (VDBClose (DB 0), RErr None)])"
    by (simp add: Connector_Connect_def connector0_def server_def std_defs logged_sel
        observe_pair)
  show ?thesis
    using h Connect_pings_and_releases[OF h] by (simp add: connector0_def)
qed

subsection \<open>Per-call paths and the background context\<close>

text \<open>
  C4. \<^verbatim>\<open>Prepare\<close>, \<^verbatim>\<open>Begin\<close>, \<^verbatim>\<open>Exec\<close> and \<^verbatim>\<open>Query\<close> take no context from
  their caller, and the context each hands to its vendor call is
  \<^verbatim>\<open>context.Background()\<close>, for every vendor, receiver, argument and world.
\<close>

theorem per_call_paths_use_Background:
  "map (\<lambda>ev. call_context (fst ev)) (snd (snd (mysqlConn_Prepare (logged V) c q (w, [])))) =
     [Some Background]
   \<and> map (\<lambda>ev. call_context (fst ev)) (snd (snd (mysqlConn_Begin (logged V) c (w, [])))) =
     [Some Background]
   \<and> map (\<lambda>ev. call_context (fst ev)) (snd (snd (mysqlStmt_Exec (logged V) s args (w, [])))) =
     [Some Background]
   \<and> map (\<lambda>ev. call_context (fst ev)) (snd (snd (mysqlStmt_Query (logged V) s args (w, [])))) =
     [Some Background]"
  by (simp add: mysqlConn_Prepare_def mysqlConn_Begin_def mysqlStmt_Exec_def
      mysqlStmt_Query_def logged_sel observe_pair
      split: prod.splits sum.splits)

subsection \<open>Argument marshalling\<close>

text \<open>
  C5. The parameters \<^verbatim>\<open>Exec\<close> and \<^verbatim>\<open>Query\<close> hand to the vendor call are those of the
  one helper \<^verbatim>\<open>ToNamedValues\<close>, and their values are the caller's arguments: the same
  number, in the same positions, each with its value and dynamic type unchanged.
\<close>

theorem arguments_forwarded_unchanged:
  "map (\<lambda>ev. map_option (map Value) (call_params (fst ev)))
       (snd (snd (mysqlStmt_Exec (logged V) s args (w, [])))) = [Some args]
   \<and> map (\<lambda>ev. map_option (map Value) (call_params (fst ev)))
       (snd (snd (mysqlStmt_Query (logged V) s args (w, [])))) = [Some args]
   \<and> map Value (ToNamedValues args) = args
   \<and> map Ordinal (ToNamedValues args) = [1..<length args + 1]"
  by (simp add: mysqlStmt_Exec_def mysqlStmt_Query_def logged_sel observe_pair
      Value_ToNamedValues Ordinal_ToNamedValues
      split: prod.splits sum.splits)

subsection \<open>Result cursor: Columns\<close>

text \<open>
  C6. \<^verbatim>\<open>Columns\<close> returns no error: its result is the sequence of names the vendor call
  returned, unchanged, and the vendor's error is dropped. On the reference vendor, whose
  \<^verbatim>\<open>Rows.Columns\<close> returns a nil slice beside every error as \<^verbatim>\<open>database/sql\<close> does, a
  failing vendor call makes \<^verbatim>\<open>Columns\<close> return the empty sequence.
\<close>

theorem Columns_best_effort:
  "fst (mysqlRows_Columns V r w) = fst (fst (Rows_Columns V (rows r) w))
   \<and> (snd (fst (Rows_Columns stdsql (rows r) sw)) \<noteq> None \<longrightarrow>
        fst (mysqlRows_Columns stdsql r sw) = [])"
  using std_Columns_nil_on_error[of "rows r" sw]
  by (auto simp: mysqlRows_Columns_def stdsql_def split: prod.splits)

theorem Columns_best_effort_witness:
  "snd (fst (Rows_Columns stdsql (Rows 2) (cursor_world closed_rows))) = Some errRowsClosed
   \<and> fst (mysqlRows_Columns stdsql \<lparr>rows = Rows 2\<rparr> (cursor_world closed_rows)) = []
   \<and> fst (mysqlRows_Columns stdsql \<lparr>rows = Rows 2\<rparr> (cursor_world fresh_rows)) = [''id'', ''name'']"
proof -
  have failing: "snd (fst (Rows_Columns stdsql (Rows 2) (cursor_world closed_rows))) = Some errRowsClosed"
    by (simp add: std_defs cursor_world_def closed_rows_def)
  have names: "fst (fst (Rows_Columns stdsql (Rows 2) (cursor_world fresh_rows))) = [''id'', ''name'']"
    by (simp add: std_defs cursor_world_def fresh_rows_def)
  show ?thesis
    using failing names
      Columns_best_effort[of stdsql "\<lparr>rows = Rows 2\<rparr>" "cursor_world fresh_rows"
        "cursor_world closed_rows"]
      Columns_best_effort[of stdsql "\<lparr>rows = Rows 2\<rparr>" "cursor_world closed_rows"
        "cursor_world closed_rows"]
    by simp
qed

subsection \<open>Connector: error wrapping\<close>

text \<open>
  C7. An error of \<^verbatim>\<open>sql.Open\<close> comes back as "failed to open mysql: " followed by the
  cause, an error of \<^verbatim>\<open>PingContext\<close> as "failed to ping mysql: " followed by the cause;
  in both cases the cause is kept for \<^verbatim>\<open>errors.Unwrap\<close> and \<^verbatim>\<open>errors.Is\<close>. Every error
  \<^verbatim>\<open>Connect\<close> returns has one of these two forms, and \<^verbatim>\<open>Connect\<close> returns a connection
  exactly when both vendor calls succeeded.
\<close>

theorem Connect_wraps_errors:
  assumes "Connector_Connect V c ctx w = (r, w')"
  shows "(\<forall>e. fst (sql_Open V ''mysql'' (dsn c) w) = Inl e \<longrightarrow>
            r = Inl (Errorf_w ''failed to open mysql: '' e))
       \<and> (\<forall>d e. fst (sql_Open V ''mysql'' (dsn c) w) = Inr d
              \<and> fst (DB_PingContext V d ctx (snd (sql_Open V ''mysql'' (dsn c) w))) = Some e \<longrightarrow>
            r = Inl (Errorf_w ''failed to ping mysql: '' e))
       \<and> (\<forall>err. r = Inl err \<longrightarrow>
            (\<exists>cause. Unwrap err = Some cause \<and> Is err cause
               \<and> (Error err = ''failed to open mysql: '' @ Error cause
                  \<or> Error err = ''failed to ping mysql: '' @ Error cause)))
       \<and> ((\<exists>conn. r = Inr conn) \<longleftrightarrow>
            (\<exists>d. fst (sql_Open V ''mysql'' (dsn c) w) = Inr d
              \<and> fst (DB_PingContext V d ctx (snd (sql_Open V ''mysql'' (dsn c) w))) = None))"
  using assms
  by (auto simp: Connector_Connect_def Is_refl split: prod.splits sum.splits option.splits)

theorem Connect_wraps_errors_witness:
  "Connector_Connect stdsql \<lparr>dsn = ''tcp(host:3306''\<rparr> Background (server [] True) =
     (Inl (Errorf_w ''failed to open mysql: '' errInvalidDSN), server [] True)
   \<and> Connector_Connect stdsql connector0 Background (server [] False) =
     (Inl (Errorf_w ''failed to ping mysql: '' errBadConn), (server [] False)\<lparr>fresh := 1\<rparr>)
   \<and> Connector_Connect stdsql connector0 Background (server [] True) =
     (Inr \<lparr>db = DB 0\<rparr>, (server [] True)\<lparr>fresh := 1, sessions := [DB 0]\<rparr>)"
proof -
  have malformed: "Connector_Connect stdsql \<lparr>dsn = ''tcp(host:3306''\<rparr> Background (server [] True) =
      (Inl (Errorf_w ''failed to open mysql: '' errInvalidDSN), server [] True)"
    by (simp add: Connector_Connect_def server_def std_defs)
  have unreachable: "Connector_Connect stdsql connector0 Background (server [] False) =
      (Inl (Errorf_w ''failed to ping mysql: '' errBadConn), (server [] False)\<lparr>fresh := 1\<rparr>)"
    by (simp add: Connector_Connect_def connector0_def server_def std_defs)
  have live: "Connector_Connect stdsql connector0 Background (server [] True) =
      (Inr \<lparr>db = DB 0\<rparr>, (server [] True)\<lparr>fresh := 1, sessions := [DB 0]\<rparr>)"
    by (simp add: Connector_Connect_def connector0_def server_def std_defs)
  show ?thesis
    using malformed unreachable live
      Connect_wraps_errors[OF malformed] Connect_wraps_errors[OF unreachable]
      Connect_wraps_errors[OF live]
    by simp
qed

subsection \<open>Prepared statement: NumInput\<close>

text \<open>
  C8. \<^verbatim>\<open>NumInput\<close> returns \<open>-1\<close>, the driver contract's "unknown number of
  placeholders", for every statement.
\<close>

theorem NumInput_sentinel: "mysqlStmt_NumInput s = - 1"
  by (simp add: mysqlStmt_NumInput_def)

subsection \<open>Result cursor: binding the destination slots\<close>



subsection \<open>No adapter-local state\<close>

text \<open>
  C10. The adapter structs hold one vendor handle each and no other field, and no method
  writes to its receiver. For every sequence of \<^verbatim>\<open>Prepare\<close>, \<^verbatim>\<open>Begin\<close>, \<^verbatim>\<open>Close\<close>,
  \<^verbatim>\<open>Exec\<close>, \<^verbatim>\<open>Query\<close>, \<^verbatim>\<open>Commit\<close>, \<^verbatim>\<open>Rollback\<close>, \<^verbatim>\<open>Columns\<close> and \<^verbatim>\<open>Next\<close>
  calls, repeated calls and calls after \<^verbatim>\<open>Close\<close> included, each call makes exactly its
  one vendor call on the stored handle, whatever was called before, and returns that
  call's result.
\<close>

theorem methods_delegate_unconditionally:
  assumes "run (logged V) cs (h, w, []) = (outs, h', w', tr)"
  shows "map fst tr = map delegate cs \<and> map (\<lambda>ev. returned (snd ev)) tr = map Some outs"
  using run_logged[OF assms] by simp

theorem methods_delegate_unconditionally_witness:
  "run (logged stdsql)
       [ConnClose \<lparr>db = DB 0\<rparr>, ConnClose \<lparr>db = DB 0\<rparr>, Begin \<lparr>db = DB 0\<rparr>,
        RowsClose \<lparr>rows = Rows 2\<rparr>, Columns \<lparr>rows = Rows 2\<rparr>, Next \<lparr>rows = Rows 2\<rparr> dest0]
       ([VNil, VNil], cursor_world fresh_rows, []) =
     ([GotErr None, GotErr None, GotTx (Inl errDBClosed), GotErr None, GotColumns [],
       GotErr (Some errRowsClosed)],
      [VNil, VNil],
      (cursor_world fresh_rows)\<lparr>sessions := [],
         cursors := [(Rows 2, fresh_rows\<lparr>closed := True\<rparr>), (Rows 2, fresh_rows)]\<rparr>,
      [(VDBClose (DB 0), RErr None), (VDBClose (DB 0), RErr None),
       (VBeginTx (DB 0) Background None, RTx (Inl errDBClosed)),
       (VRowsClose (Rows 2), RErr None), (VColumns (Rows 2), RColumns [] (Some errRowsClosed)),
       (VScan (Rows 2) [PtrTo 0, PtrTo 1], RErr (Some errRowsClosed))])"
proof -
  have h: "run (logged stdsql)
       [ConnClose \<lparr>db = DB 0\<rparr>, ConnClose \<lparr>db = DB 0\<rparr>, Begin \<lparr>db = DB 0\<rparr>,
        RowsClose \<lparr>rows = Rows 2\<rparr>, Columns \<lparr>rows = Rows 2\<rparr>, Next \<lparr>rows = Rows 2\<rparr> dest0]
       ([VNil, VNil], cursor_world fresh_rows, []) =
     ([GotErr None, GotErr None, GotTx (Inl errDBClosed), GotErr None, GotColumns [],
       GotErr (Some errRowsClosed)],
      [VNil, VNil],
      (cursor_world fresh_rows)\<lparr>sessions := [],
         cursors := [(Rows 2, fresh_rows\<lparr>closed := True\<rparr>), (Rows 2, fresh_rows)]\<rparr>,
      [(VDBClose (DB 0), RErr None), (VDBClose (DB 0), RErr None),
       (VBeginTx (DB 0) Background None, RTx (Inl errDBClosed)),
       (VRowsClose (Rows 2), RErr None), (VColumns (Rows 2), RColumns [] (Some errRowsClosed)),
       (VScan (Rows 2) [PtrTo 0, PtrTo 1], RErr (Some errRowsClosed))])"
    by (simp add: mysqlConn_Close_def mysqlConn_Begin_def mysqlRows_Close_def
        mysqlRows_Columns_def mysqlRows_Next_def std_defs cursor_world_def fresh_rows_def
        dest0_def logged_sel observe_pair bind_slots_eq upt_conv_Cons)
  show ?thesis
    using h methods_delegate_unconditionally[OF h] by simp
qed

end
